theory Spec2Isabelle
  imports Main
begin

section \<open>Go values used by cmd/helmpush/main.go\<close>

text \<open>
  A Go \<^verbatim>\<open>string\<close> is a byte sequence: \<^typ>\<open>string\<close> (a list of \<^typ>\<open>char\<close>).
  A Go \<^verbatim>\<open>error\<close> is \<^verbatim>\<open>nil\<close> or a value; functions that return \<^verbatim>\<open>(T, error)\<close>
  are modelled with the sum \<open>error + T\<close>, functions that return only \<^verbatim>\<open>error\<close>
  with \<open>error option\<close> (\<open>None\<close> is \<^verbatim>\<open>nil\<close>).
\<close>

datatype error =
    New string \<comment> \<open>\<^verbatim>\<open>errors.New(msg)\<close> and \<^verbatim>\<open>fmt.Errorf(...)\<close>: the formatted message\<close>
  | NumError string string \<comment> \<open>\<^verbatim>\<open>strconv\<close>'s syntax error: function name and offending input\<close>
  | External string \<comment> \<open>an error value handed back by a library or collaborator call\<close>

text \<open>The struct \<^verbatim>\<open>pushCmd\<close> (main.go, lines 19-30).\<close>

record pushCmd =
  chartName :: string
  chartVersion :: string
  repoName :: string
  username :: string
  password :: string
  accessToken :: string
  contextPath :: string
  useHTTP :: bool

text \<open>The process environment: \<^verbatim>\<open>os.LookupEnv(k)\<close> is \<open>env k\<close>.\<close>

type_synonym environ = "string \<rightharpoonup> string"

subsection \<open>strconv.ParseBool\<close>

text \<open>
  \<^verbatim>\<open>strconv.ParseBool\<close> accepts exactly twelve spellings; on anything else it returns
  \<^verbatim>\<open>false\<close> together with a syntax error.
\<close>

definition ParseBool :: "string \<Rightarrow> bool \<times> error option" where
  "ParseBool str =
     (if str \<in> set [''1'', ''t'', ''T'', ''true'', ''TRUE'', ''True''] then (True, None)
      else if str \<in> set [''0'', ''f'', ''F'', ''false'', ''FALSE'', ''False''] then (False, None)
      else (False, Some (NumError ''ParseBool'' str)))"

subsection \<open>strings.HasPrefix, strings.Split, strings.Join\<close>

definition HasPrefix :: "string \<Rightarrow> string \<Rightarrow> bool" where
  "HasPrefix s pre = (take (length pre) s = pre)"

text \<open>
  \<^verbatim>\<open>strings.Split(s, sep)\<close> for a one-byte separator: one more part than there are
  separators in \<open>s\<close>; the empty string splits into the single part \<open>''''\<close>.
\<close>

fun Split :: "string \<Rightarrow> char \<Rightarrow> string list" where
  "Split [] sep = [[]]"
| "Split (c # cs) sep =
     (if c = sep then [] # Split cs sep
      else (case Split cs sep of
              [] \<Rightarrow> [[c]]
            | part # parts \<Rightarrow> (c # part) # parts))"

fun Join :: "string list \<Rightarrow> string \<Rightarrow> string" where
  "Join [] sep = []"
| "Join [a] sep = a"
| "Join (a # b # rest) sep = a @ sep @ Join (b # rest) sep"

subsection \<open>fmt's %d\<close>

definition digit :: "nat \<Rightarrow> char" where
  "digit n = ''0123456789'' ! n"

fun FormatNat :: "nat \<Rightarrow> string" where
  "FormatNat n = (if n < 10 then [digit n] else FormatNat (n div 10) @ [digit (n mod 10)])"

definition Itoa :: "int \<Rightarrow> string" where
  "Itoa i = (if i < 0 then CHR ''-'' # FormatNat (nat (- i)) else FormatNat (nat i))"

section \<open>ConfigResolver: setFieldsFromEnv\<close>

text \<open>
  main.go, lines 77-93. Each \<^verbatim>\<open>if\<close> of the source is one \<open>let\<close> step; the receiver
  is passed in and returned updated. The function has no result in the source, so it
  has no way to report an error.
\<close>

definition setFieldsFromEnv :: "environ \<Rightarrow> pushCmd \<Rightarrow> pushCmd" where
  "setFieldsFromEnv env p0 =
     (let p1 = (case env ''HELM_REPO_USERNAME'' of
                  Some v \<Rightarrow> (if username p0 = [] then p0\<lparr>username := v\<rparr> else p0)
                | None \<Rightarrow> p0);
          p2 = (case env ''HELM_REPO_PASSWORD'' of
                  Some v \<Rightarrow> (if password p1 = [] then p1\<lparr>password := v\<rparr> else p1)
                | None \<Rightarrow> p1);
          p3 = (case env ''HELM_REPO_ACCESS_TOKEN'' of
                  Some v \<Rightarrow> (if accessToken p2 = [] then p2\<lparr>accessToken := v\<rparr> else p2)
                | None \<Rightarrow> p2);
          p4 = (case env ''HELM_REPO_CONTEXT_PATH'' of
                  Some v \<Rightarrow> (if contextPath p3 = [] then p3\<lparr>contextPath := v\<rparr> else p3)
                | None \<Rightarrow> p3);
          p5 = (case env ''HELM_REPO_USE_HTTP'' of
                  Some v \<Rightarrow> p4\<lparr>useHTTP := fst (ParseBool v)\<rparr>
                | None \<Rightarrow> p4)
      in p5)"

text \<open>The value a string field resolves to, in the words of the specification.\<close>

definition resolve :: "string \<Rightarrow> string option \<Rightarrow> string" where
  "resolve flag envval =
     (if flag \<noteq> [] then flag else (case envval of Some v \<Rightarrow> v | None \<Rightarrow> []))"

section \<open>Collaborators outside main.go\<close>

text \<open>
  \<^verbatim>\<open>url.URL\<close> of Go's \<^verbatim>\<open>net/url\<close>: the fields a \<^verbatim>\<open>scheme://host/path?query#fragment\<close>
  address fills. The program reads \<open>Path\<close> and assigns \<open>Path\<close> and \<open>Scheme\<close>.
\<close>

record URL =
  Scheme :: string
  Host :: string
  Path :: string
  RawQuery :: string
  Fragment :: string

text \<open>The repository entry \<^verbatim>\<open>helm.GetRepoByName\<close> returns; the program reads three fields.\<close>

record Repo =
  repo_URL :: string
  repo_Username :: string
  repo_Password :: string

record Chart =
  chart_Name :: string
  chart_Version :: string

text \<open>
  Modelled from the spec: \<^verbatim>\<open>chart.SetVersion\<close> of \<^verbatim>\<open>pkg/helm\<close>, which is not among the
  sources; the specification (4.2, step 3) says it mutates the chart's declared version field in
  memory.
\<close>

definition SetVersion :: "Chart \<Rightarrow> string \<Rightarrow> Chart" where
  "SetVersion c v = c\<lparr>chart_Version := v\<rparr>"

text \<open>The options handed to \<^verbatim>\<open>cm.NewClient\<close>.\<close>

record Client =
  cm_URL :: string
  cm_Username :: string
  cm_Password :: string
  cm_AccessToken :: string
  cm_ContextPath :: string

text \<open>
  \<^verbatim>\<open>http.Response\<close>, as far as \<^verbatim>\<open>handlePushResponse\<close> looks at it: the status code, and what
  \<^verbatim>\<open>ioutil.ReadAll(resp.Body)\<close> gives (the body's bytes, or a read error).
\<close>

record Response =
  StatusCode :: int
  Body :: "error + string"

text \<open>The disk, as the set of paths that exist.\<close>

type_synonym disk = "string set"

text \<open>
  The calls that leave main.go. Each is a parameter of the model: theorems hold for every
  behaviour of these calls.
  \<^item> \<open>url_Parse\<close>, \<open>url_String\<close>: \<^verbatim>\<open>url.Parse\<close> and \<^verbatim>\<open>(*URL).String\<close>;
  \<^item> \<open>json_Unmarshal\<close>: \<^verbatim>\<open>json.Unmarshal(b, &er)\<close> for the struct with the one string field
    \<^verbatim>\<open>Error\<close>, tagged \<^verbatim>\<open>json:"error"\<close>; \<open>Inr\<close> carries \<^verbatim>\<open>er.Error\<close> after a successful
    decode;
  \<^item> \<open>GetRepoByName\<close>, \<open>GetChartByName\<close>, \<open>CreateChartPackage\<close>: package \<^verbatim>\<open>helm\<close>;
    packaging may change the disk in any way;
  \<^item> \<open>TempDir\<close>: \<^verbatim>\<open>ioutil.TempDir("", "helm-push-")\<close>, the name of the directory it made;
  \<^item> \<open>RemoveAll_fault\<close>: whether \<^verbatim>\<open>os.RemoveAll(path)\<close> fails on a disk, and then the first
    error it met and the disk it leaves (it removes what it can, which may be nothing);
  \<^item> \<open>UploadChartPackage\<close>, \<open>DownloadFile\<close>: the ChartMuseum client.
\<close>

record lib =
  url_Parse :: "string \<Rightarrow> error + URL"
  url_String :: "URL \<Rightarrow> string"
  json_Unmarshal :: "string \<Rightarrow> error + string"
  GetRepoByName :: "string \<Rightarrow> error + Repo"
  GetChartByName :: "string \<Rightarrow> error + Chart"
  TempDir :: "disk \<Rightarrow> error + string"
  RemoveAll_fault :: "string \<Rightarrow> disk \<Rightarrow> (error \<times> disk) option"
  CreateChartPackage :: "Chart \<Rightarrow> string \<Rightarrow> disk \<Rightarrow> (error + string) \<times> disk"
  UploadChartPackage :: "Client \<Rightarrow> string \<Rightarrow> disk \<Rightarrow> error + Response"
  DownloadFile :: "Client \<Rightarrow> string \<Rightarrow> error + string"

text \<open>The disk without a path and everything beneath it.\<close>

definition remove_tree :: "string \<Rightarrow> disk \<Rightarrow> disk" where
  "remove_tree path d = Set.filter (\<lambda>q. \<not> (q = path \<or> HasPrefix q (path @ ''/''))) d"

text \<open>
  \<^verbatim>\<open>os.RemoveAll(path)\<close> removes the path and any children it contains; it removes everything
  it can but returns the first error it encounters. The result is the returned error and the
  disk afterwards: without a fault the error is \<^verbatim>\<open>nil\<close> and the whole tree is gone, with a
  fault the error is returned and the disk is the one the fault leaves.
\<close>

definition RemoveAll :: "lib \<Rightarrow> string \<Rightarrow> disk \<Rightarrow> error option \<times> disk" where
  "RemoveAll w path d =
     (case RemoveAll_fault w path d of
        None \<Rightarrow> (None, remove_tree path d)
      | Some (e, d') \<Rightarrow> (Some e, d'))"

text \<open>\<^verbatim>\<open>filepath.Base\<close> with the separator \<open>/\<close>.\<close>

definition Base :: "string \<Rightarrow> string" where
  "Base path =
     (if path = [] then ''.''
      else (let stripped = rev (dropWhile (\<lambda>c. c = CHR ''/'') (rev path));
                elem = rev (takeWhile (\<lambda>c. c \<noteq> CHR ''/'') (rev stripped))
            in if elem = [] then ''/'' else elem))"

definition nl :: string where
  "nl = [CHR 0x0A]"

section \<open>ResponseInterpreter: handlePushResponse\<close>

text \<open>
  main.go, lines 197-215. The result is the returned error and the text printed to standard
  output.
\<close>

definition handlePushResponse :: "lib \<Rightarrow> Response \<Rightarrow> error option \<times> string" where
  "handlePushResponse w resp =
     (if StatusCode resp \<noteq> 201 then
        (case Body resp of
           Inl e \<Rightarrow> (Some e, [])
         | Inr b \<Rightarrow>
             (case json_Unmarshal w b of
                Inl e \<Rightarrow>
                  (Some (New (Itoa (StatusCode resp) @
                     '': could not properly parse response JSON: '' @ b)), [])
              | Inr er \<Rightarrow>
                  (if er = [] then
                     (Some (New (Itoa (StatusCode resp) @
                        '': could not properly parse response JSON: '' @ b)), [])
                   else (Some (New (Itoa (StatusCode resp) @ '': '' @ er)), []))))
      else (None, ''Done.'' @ nl))"

text \<open>
  The specification's \<^verbatim>\<open>ServerError{statusCode, message}\<close>, as the program renders an error
  that carries a status code and a message: \<^verbatim>\<open>fmt.Errorf("%d: %s", statusCode, message)\<close>.
\<close>

definition ServerError :: "int \<Rightarrow> string \<Rightarrow> error" where
  "ServerError code msg = New (Itoa code @ '': '' @ msg)"

section \<open>PushFlow: push\<close>

text \<open>
  main.go, lines 95-147. The result is the returned error, the text printed to standard
  output and the disk afterwards. \<^verbatim>\<open>defer os.RemoveAll(tmp)\<close> runs when the function returns
  on any path after the \<^verbatim>\<open>defer\<close> statement: the rest of the body is evaluated first and
  \<open>RemoveAll\<close> is applied to the disk it leaves. The deferred call's error is discarded
  (line 133), so only the disk it leaves enters the result.
\<close>

definition push :: "lib \<Rightarrow> pushCmd \<Rightarrow> disk \<Rightarrow> error option \<times> string \<times> disk" where
  "push w p d =
     (case GetRepoByName w (repoName p) of
        Inl e \<Rightarrow> (Some e, [], d)
      | Inr repo \<Rightarrow>
          (case GetChartByName w (chartName p) of
             Inl e \<Rightarrow> (Some e, [], d)
           | Inr chart0 \<Rightarrow>
               (let chart = (if chartVersion p \<noteq> [] then SetVersion chart0 (chartVersion p)
                             else chart0);
                    username1 = (if username p \<noteq> [] then username p else repo_Username repo);
                    password1 = (if password p \<noteq> [] then password p else repo_Password repo);
                    client = \<lparr>cm_URL = repo_URL repo, cm_Username = username1,
                              cm_Password = password1, cm_AccessToken = accessToken p,
                              cm_ContextPath = contextPath p\<rparr>
                in (case TempDir w d of
                      Inl e \<Rightarrow> (Some e, [], d)
                    | Inr tmp \<Rightarrow>
                        (let (r, out, d') =
                               (case CreateChartPackage w chart tmp (insert tmp d) of
                                  (Inl e, d1) \<Rightarrow> (Some e, [], d1)
                                | (Inr chartPackagePath, d1) \<Rightarrow>
                                    (let out1 = ''Pushing '' @ Base chartPackagePath @ '' to '' @
                                                repoName p @ ''...'' @ nl
                                     in (case UploadChartPackage w client chartPackagePath d1 of
                                           Inl e \<Rightarrow> (Some e, out1, d1)
                                         | Inr resp \<Rightarrow>
                                             (case handlePushResponse w resp of
                                                (r, out2) \<Rightarrow> (r, out1 @ out2, d1)))))
                         in (r, out, snd (RemoveAll w tmp d')))))))"

section \<open>DownloadFlow: download\<close>

text \<open>
  main.go, lines 149-195. The result holds the returned error, the text printed to standard
  output, and the call \<^verbatim>\<open>client.DownloadFile(filePath)\<close> that was issued, if any, as the pair
  of the client's options and the file path.
\<close>

record Download =
  ret :: "error option"
  stdout :: string
  call :: "(Client \<times> string) option"

definition download :: "lib \<Rightarrow> pushCmd \<Rightarrow> string \<Rightarrow> Download" where
  "download w p fileURL =
     (let out1 = fileURL @ nl
      in (case url_Parse w fileURL of
            Inl e \<Rightarrow> \<lparr>ret = Some e, stdout = out1, call = None\<rparr>
          | Inr parsedURL \<Rightarrow>
              (let out2 = out1 @ Path parsedURL @ nl;
                   parts = Split (Path parsedURL) (CHR ''/'');
                   numParts = length parts
               in if numParts \<le> 1 then
                    \<lparr>ret = Some (New (''invalid file url: '' @ fileURL)), stdout = out2, call = None\<rparr>
                  else
                    (let out3 = out2 @ ''['' @ Join parts '' '' @ '']'' @ nl;
                         filePath0 = parts ! (numParts - 1);
                         charts = (parts ! (numParts - 2) = ''charts'');
                         numRemoveParts = (if charts then 2 else 1);
                         filePath = (if charts then ''charts/'' @ filePath0 else filePath0);
                         parsedURL1 = parsedURL\<lparr>Path :=
                            Join (take (numParts - numRemoveParts) parts) ''/''\<rparr>;
                         parsedURL2 = parsedURL1\<lparr>Scheme :=
                            (if useHTTP p then ''http'' else ''https'')\<rparr>;
                         client = \<lparr>cm_URL = url_String w parsedURL2, cm_Username = username p,
                                   cm_Password = password p, cm_AccessToken = accessToken p,
                                   cm_ContextPath = contextPath p\<rparr>
                     in (case DownloadFile w client filePath of
                           Inl e \<Rightarrow> \<lparr>ret = Some e, stdout = out3, call = Some (client, filePath)\<rparr>
                         | Inr contents \<Rightarrow>
                             \<lparr>ret = None, stdout = out3 @ contents,
                              call = Some (client, filePath)\<rparr>)))))"

text \<open>
  The specification's \<^verbatim>\<open>InvalidURI\<close>: the error the program returns for a URI it rejects,
  \<^verbatim>\<open>fmt.Errorf("invalid file url: %s", fileURL)\<close>.
\<close>

definition InvalidURI :: "string \<Rightarrow> error" where
  "InvalidURI fileURL = New (''invalid file url: '' @ fileURL)"

section \<open>The command: newPushCmd and its RunE\<close>

text \<open>
  main.go, lines 43-75. The flag library fills five fields of the fresh \<^verbatim>\<open>pushCmd\<close>; the
  values it parsed are the record \<open>Flags\<close> (each empty when the flag is absent). No flag is
  bound to \<^verbatim>\<open>useHTTP\<close>, which keeps Go's zero value.
\<close>

record Flags =
  flag_version :: string
  flag_username :: string
  flag_password :: string
  flag_access_token :: string
  flag_context_path :: string

definition newPushCmd :: "Flags \<Rightarrow> pushCmd" where
  "newPushCmd f =
     \<lparr>chartName = [], chartVersion = flag_version f, repoName = [],
      username = flag_username f, password = flag_password f,
      accessToken = flag_access_token f, contextPath = flag_context_path f,
      useHTTP = False\<rparr>"

text \<open>
  \<^verbatim>\<open>RunE\<close> (lines 50-65), on the positional arguments: the returned error, the text printed to
  standard output, the disk afterwards and the download call issued, if any.
\<close>

record Run =
  run_ret :: "error option"
  run_out :: string
  run_disk :: disk
  run_call :: "(Client \<times> string) option"

definition RunE :: "lib \<Rightarrow> environ \<Rightarrow> Flags \<Rightarrow> string list \<Rightarrow> disk \<Rightarrow> Run" where
  "RunE w env f args d =
     (let p = newPushCmd f
      in if length args = 4 \<and> HasPrefix (args ! 3) ''cm://'' then
           (let r = download w (setFieldsFromEnv env p) (args ! 3)
            in \<lparr>run_ret = ret r, run_out = stdout r, run_disk = d, run_call = call r\<rparr>)
         else if length args \<noteq> 2 then
           \<lparr>run_ret = Some (New
              ''This command needs 2 arguments: name of chart, name of chart repository''),
            run_out = [], run_disk = d, run_call = None\<rparr>
         else
           (case push w (setFieldsFromEnv env (p\<lparr>chartName := args ! 0, repoName := args ! 1\<rparr>)) d of
              (r, out, d') \<Rightarrow> \<lparr>run_ret = r, run_out = out, run_disk = d', run_call = None\<rparr>))"

section \<open>An instance of the collaborators\<close>

text \<open>
  To run the model on concrete inputs the collaborators need concrete behaviour. The three
  functions below stand for the Go libraries on the inputs used in this theory and make
  no statement about other inputs:
  \<^item> \<open>parse_hier\<close> follows \<^verbatim>\<open>url.Parse\<close> on addresses \<^verbatim>\<open>scheme://host/path\<close> written with
    letters, digits, \<open>-\<close>, \<open>.\<close> and \<open>/\<close> only (no user info, port, escape, query or fragment):
    the scheme ends at the first colon, the host at the next slash after \<open>//\<close>, and the path
    is the rest, leading slash included (empty when there is none);
  \<^item> \<open>render_hier\<close> follows \<^verbatim>\<open>(*URL).String\<close> on such values, where nothing needs escaping;
  \<^item> \<open>decode_error_object\<close> follows \<^verbatim>\<open>json.Unmarshal\<close> into the one-field struct on the
    bodies \<^verbatim>\<open>{}\<close> and \<^verbatim>\<open>{"error":"text"}\<close> (printable ASCII text without quote or
    backslash), and on bodies that do not begin a JSON value, where it fails.
\<close>

definition parse_hier :: "string \<Rightarrow> error + URL" where
  "parse_hier raw =
     (let scheme = takeWhile (\<lambda>c. c \<noteq> CHR '':'') raw;
          rest = drop (length scheme + 1) raw;
          authority = takeWhile (\<lambda>c. c \<noteq> CHR ''/'') (drop 2 rest);
          path = dropWhile (\<lambda>c. c \<noteq> CHR ''/'') (drop 2 rest)
      in if scheme \<noteq> [] \<and> HasPrefix rest ''//'' then
           Inr \<lparr>Scheme = scheme, Host = authority, Path = path, RawQuery = [], Fragment = []\<rparr>
         else Inl (External ''address outside the supported shape''))"

definition render_hier :: "URL \<Rightarrow> string" where
  "render_hier u =
     (if Scheme u \<noteq> [] then Scheme u @ '':'' else []) @
     (if \<not> (Scheme u = [] \<and> Host u = []) then
        (if \<not> (Host u = [] \<and> Path u = []) then ''//'' else []) @ Host u
      else []) @
     (if Path u \<noteq> [] \<and> hd (Path u) \<noteq> CHR ''/'' \<and> Host u \<noteq> [] then ''/'' else []) @
     Path u @
     (if RawQuery u \<noteq> [] then CHR ''?'' # RawQuery u else []) @
     (if Fragment u \<noteq> [] then CHR ''#'' # Fragment u else [])"

definition decode_error_object :: "string \<Rightarrow> error + string" where
  \<open>decode_error_object b =
     (let pre = ''{"error":"''; suf = ''"}'';
          mid = take (length b - length pre - length suf) (drop (length pre) b)
      in if b = ''{}'' then Inr []
         else if length pre + length suf \<le> length b \<and> HasPrefix b pre \<and>
                 drop (length b - length suf) b = suf \<and>
                 list_all (\<lambda>c. c \<noteq> CHR 0x22 \<and> c \<noteq> CHR 0x5C \<and> 32 \<le> (of_char c :: nat) \<and>
                    (of_char c :: nat) < 127) mid
         then Inr mid
         else Inl (External ''body outside the supported shape''))\<close>

text \<open>
  A world in which every collaborator succeeds: one repository, one chart, a removal without
  fault, an upload answered with status 201, and a download that returns the bytes
  \<open>chart-bytes\<close>.
\<close>

definition sample_lib :: lib where
  "sample_lib =
     \<lparr>url_Parse = parse_hier,
      url_String = render_hier,
      json_Unmarshal = decode_error_object,
      GetRepoByName = (\<lambda>name.
        if name = ''chartmuseum'' then
          Inr \<lparr>repo_URL = ''https://charts.example.com'', repo_Username = ''stored-user'',
               repo_Password = ''stored-pass''\<rparr>
        else Inl (External ''no such repository'')),
      GetChartByName = (\<lambda>name.
        if name = ''mychart'' then Inr \<lparr>chart_Name = ''mychart'', chart_Version = ''0.1.0''\<rparr>
        else Inl (External ''no such chart'')),
      TempDir = (\<lambda>d. Inr ''/tmp/helm-push-1''),
      RemoveAll_fault = (\<lambda>path d. None),
      CreateChartPackage = (\<lambda>c tmp d.
        (Inr (tmp @ ''/'' @ chart_Name c @ ''-'' @ chart_Version c @ ''.tgz''),
         insert (tmp @ ''/'' @ chart_Name c @ ''-'' @ chart_Version c @ ''.tgz'') d)),
      UploadChartPackage = (\<lambda>c path d. Inr \<lparr>StatusCode = 201, Body = Inr []\<rparr>),
      DownloadFile = (\<lambda>c filePath. Inr ''chart-bytes'')\<rparr>"

text \<open>Variants of it, one for each way \<^verbatim>\<open>push\<close> can fail after the temporary directory exists.\<close>

definition sample_packaging_fails :: lib where
  "sample_packaging_fails =
     sample_lib\<lparr>CreateChartPackage := (\<lambda>c tmp d.
        (Inl (External ''packaging failed''), insert (tmp @ ''/partial.tgz'') d))\<rparr>"

definition sample_upload_fails :: lib where
  "sample_upload_fails =
     sample_lib\<lparr>UploadChartPackage := (\<lambda>c path d. Inl (External ''connection refused''))\<rparr>"

definition sample_server_rejects :: lib where
  \<open>sample_server_rejects =
     sample_lib\<lparr>UploadChartPackage := (\<lambda>c path d.
        Inr \<lparr>StatusCode = 409, Body = Inr ''{"error":"conflict"}''\<rparr>)\<rparr>\<close>

text \<open>
  A removal that fails without removing anything, as on a directory whose entries may not be
  unlinked.
\<close>

definition removal_denied :: "string \<Rightarrow> disk \<Rightarrow> (error \<times> disk) option" where
  "removal_denied path d = Some (External ''unlinkat: permission denied'', d)"

text \<open>Two repository registries that disagree on every name.\<close>

definition registry_with_credentials :: "string \<Rightarrow> error + Repo" where
  "registry_with_credentials name =
     Inr \<lparr>repo_URL = ''https://elsewhere.example.com'', repo_Username = ''carol'',
          repo_Password = ''registry-secret''\<rparr>"

definition registry_empty :: "string \<Rightarrow> error + Repo" where
  "registry_empty name = Inl (External ''no repositories configured'')"

text \<open>An invocation: flags, environment, the resulting command, arguments and disk.\<close>

definition sample_flags :: Flags where
  "sample_flags =
     \<lparr>flag_version = [], flag_username = ''alice'', flag_password = [],
      flag_access_token = [], flag_context_path = []\<rparr>"

definition sample_env :: environ where
  "sample_env =
     [''HELM_REPO_USERNAME'' \<mapsto> ''bob'', ''HELM_REPO_PASSWORD'' \<mapsto> ''s3cret'',
      ''HELM_REPO_USE_HTTP'' \<mapsto> ''true'']"

definition sample_cmd :: pushCmd where
  "sample_cmd =
     \<lparr>chartName = ''mychart'', chartVersion = [], repoName = ''chartmuseum'',
      username = ''alice'', password = [], accessToken = [], contextPath = [],
      useHTTP = False\<rparr>"

definition sample_args :: "string list" where
  "sample_args = [''cert.pem'', ''key.pem'', ''ca.pem'', ''cm://host/a/b/foo-1.0.0.tgz'']"

definition sample_disk :: disk where
  "sample_disk = {''/home/u/mychart/Chart.yaml''}"

definition sample_client :: "string \<Rightarrow> Client" where
  "sample_client url =
     \<lparr>cm_URL = url, cm_Username = ''alice'', cm_Password = [], cm_AccessToken = [],
      cm_ContextPath = []\<rparr>"

text \<open>What \<^verbatim>\<open>url.Parse\<close> returns for the addresses used below.\<close>

definition cm_foo_charts :: URL where
  "cm_foo_charts =
     \<lparr>Scheme = ''cm'', Host = ''host'', Path = ''/a/b/charts/foo-1.0.0.tgz'',
      RawQuery = [], Fragment = []\<rparr>"

definition cm_foo_plain :: URL where
  "cm_foo_plain =
     \<lparr>Scheme = ''cm'', Host = ''host'', Path = ''/a/b/foo-1.0.0.tgz'',
      RawQuery = [], Fragment = []\<rparr>"

definition cm_foo_root :: URL where
  "cm_foo_root =
     \<lparr>Scheme = ''cm'', Host = ''host'', Path = ''/foo.tgz'', RawQuery = [], Fragment = []\<rparr>"

definition cm_host_only :: URL where
  "cm_host_only =
     \<lparr>Scheme = ''cm'', Host = ''host'', Path = [], RawQuery = [], Fragment = []\<rparr>"

section \<open>Facts about the library functions\<close>

text \<open>\<open>Split\<close> and \<open>Join\<close> are inverse to each other on parts free of the separator.\<close>

lemma Split_not_Nil [simp]: "Split s c \<noteq> []"
  by (induction s) (auto split: list.splits)

lemma length_Split: "length (Split s c) = Suc (length (filter (\<lambda>x. x = c) s))"
  by (induction s) (auto split: list.splits)

lemma Split_short: "(length (Split s c) \<le> 1) = (c \<notin> set s)"
  by (auto simp: length_Split filter_empty_conv)

lemma Split_parts_no_sep: "x \<in> set (Split s c) \<Longrightarrow> c \<notin> set x"
  by (induction s arbitrary: x) (auto split: if_splits list.splits)

lemma Join_Cons_Cons: "Join ((c # part) # parts) sep = c # Join (part # parts) sep"
  by (cases parts) auto

lemma Join_Split: "Join (Split s c) [c] = s"
proof (induction s)
  case Nil
  show ?case by simp
next
  case (Cons a s)
  obtain part parts where sp: "Split s c = part # parts"
    by (cases "Split s c") auto
  with Cons show ?case
    by (auto simp: Join_Cons_Cons)
qed

lemma Split_no_sep: "c \<notin> set a \<Longrightarrow> Split a c = [a]"
  by (induction a) auto

lemma Split_append_sep: "c \<notin> set a \<Longrightarrow> Split (a @ c # t) c = a # Split t c"
  by (induction a) auto

lemma Split_Join:
  "xs \<noteq> [] \<Longrightarrow> \<forall>x\<in>set xs. c \<notin> set x \<Longrightarrow> Split (Join xs [c]) c = xs"
  by (induction xs "[c]" rule: Join.induct) (auto simp: Split_no_sep Split_append_sep)

lemma Split_eq_iff:
  "(Split s c = xs) = (xs \<noteq> [] \<and> (\<forall>x\<in>set xs. c \<notin> set x) \<and> s = Join xs [c])"
  using Split_Join [of xs c] Join_Split [of s c] Split_parts_no_sep [of _ s c] Split_not_Nil [of s c]
  by metis

lemma Split_two_or_more:
  assumes "2 \<le> length (Split s c)"
  shows "\<exists>segs dir fname. Split s c = segs @ [dir, fname]"
proof -
  obtain ys fname where a: "Split s c = ys @ [fname]"
    by (metis Split_not_Nil rev_exhaust)
  with assms have "ys \<noteq> []" by auto
  then obtain segs dir where "ys = segs @ [dir]"
    by (metis rev_exhaust)
  with a show ?thesis by auto
qed

lemma ParseBool_True: "fst (ParseBool v) = (v \<in> set [''1'', ''t'', ''T'', ''true'', ''TRUE'', ''True''])"
  by (simp add: ParseBool_def)

lemma remove_tree_gone: "path \<notin> remove_tree path d"
  by (simp add: remove_tree_def)

lemma remove_tree_beneath_gone: "HasPrefix q (path @ ''/'') \<Longrightarrow> q \<notin> remove_tree path d"
  by (simp add: remove_tree_def)

lemma remove_tree_subset: "remove_tree path d \<subseteq> d"
  by (auto simp: remove_tree_def)

lemma RemoveAll_nil:
  "fst (RemoveAll w path d) = None \<Longrightarrow> snd (RemoveAll w path d) = remove_tree path d"
  by (simp add: RemoveAll_def split: option.splits prod.splits)

lemma RemoveAll_fault_update:
  "RemoveAll (w\<lparr>RemoveAll_fault := f\<rparr>) path d =
     (case f path d of None \<Rightarrow> (None, remove_tree path d) | Some (e, d') \<Rightarrow> (Some e, d'))"
  by (simp add: RemoveAll_def)

section \<open>Facts about the resolver\<close>

lemma setFieldsFromEnv_username:
  "username (setFieldsFromEnv env p) = resolve (username p) (env ''HELM_REPO_USERNAME'')"
  by (simp add: setFieldsFromEnv_def resolve_def Let_def split: option.splits)

lemma setFieldsFromEnv_password:
  "password (setFieldsFromEnv env p) = resolve (password p) (env ''HELM_REPO_PASSWORD'')"
  by (simp add: setFieldsFromEnv_def resolve_def Let_def split: option.splits)

lemma setFieldsFromEnv_accessToken:
  "accessToken (setFieldsFromEnv env p) =
     resolve (accessToken p) (env ''HELM_REPO_ACCESS_TOKEN'')"
  by (simp add: setFieldsFromEnv_def resolve_def Let_def split: option.splits)

lemma setFieldsFromEnv_contextPath:
  "contextPath (setFieldsFromEnv env p) =
     resolve (contextPath p) (env ''HELM_REPO_CONTEXT_PATH'')"
  by (simp add: setFieldsFromEnv_def resolve_def Let_def split: option.splits)

lemma setFieldsFromEnv_useHTTP:
  "useHTTP (setFieldsFromEnv env p) =
     (case env ''HELM_REPO_USE_HTTP'' of Some v \<Rightarrow> fst (ParseBool v) | None \<Rightarrow> useHTTP p)"
  by (simp add: setFieldsFromEnv_def Let_def split: option.splits)

section \<open>Facts about the flows\<close>

lemma download_call_None:
  "url_Parse w fileURL = Inr u \<Longrightarrow> length (Split (Path u) (CHR ''/'')) \<le> 1 \<Longrightarrow>
   download w p fileURL =
     \<lparr>ret = Some (New (''invalid file url: '' @ fileURL)),
      stdout = fileURL @ nl @ Path u @ nl, call = None\<rparr>"
  by (simp add: download_def Let_def)

lemma download_call_Some:
  assumes "url_Parse w fileURL = Inr u" and "Split (Path u) (CHR ''/'') = segs @ [dir, fname]"
  shows "call (download w p fileURL) =
     Some (\<lparr>cm_URL = url_String w
               (u\<lparr>Path := Join (if dir = ''charts'' then segs else segs @ [dir]) ''/'',
                  Scheme := (if useHTTP p then ''http'' else ''https'')\<rparr>),
            cm_Username = username p, cm_Password = password p,
            cm_AccessToken = accessToken p, cm_ContextPath = contextPath p\<rparr>,
           if dir = ''charts'' then ''charts/'' @ fname else fname)"
  using assms
  by (simp add: download_def Let_def nth_append split: sum.splits)

lemma download_call_cases:
  assumes "call (download w p fileURL) = Some (c, fp)"
  shows "\<exists>u base. url_Parse w fileURL = Inr u \<and>
           cm_URL c = url_String w
             (u\<lparr>Path := base, Scheme := (if useHTTP p then ''http'' else ''https'')\<rparr>) \<and>
           cm_Username c = username p \<and> cm_Password c = password p \<and>
           cm_AccessToken c = accessToken p \<and> cm_ContextPath c = contextPath p"
proof (cases "url_Parse w fileURL")
  case (Inl e)
  with assms show ?thesis by (simp add: download_def)
next
  case (Inr u)
  show ?thesis
  proof (cases "length (Split (Path u) (CHR ''/'')) \<le> 1")
    case True
    from download_call_None [OF Inr True, of p] assms show ?thesis by simp
  next
    case False
    then have "2 \<le> length (Split (Path u) (CHR ''/''))" by simp
    from Split_two_or_more [OF this] obtain segs dir fname
      where sp: "Split (Path u) (CHR ''/'') = segs @ [dir, fname]" by blast
    from download_call_Some [OF Inr sp, of p] assms
    have "c = \<lparr>cm_URL = url_String w
               (u\<lparr>Path := Join (if dir = ''charts'' then segs else segs @ [dir]) ''/'',
                  Scheme := (if useHTTP p then ''http'' else ''https'')\<rparr>),
            cm_Username = username p, cm_Password = password p,
            cm_AccessToken = accessToken p, cm_ContextPath = contextPath p\<rparr>"
      by simp
    with Inr show ?thesis by auto
  qed
qed

lemma download_stdout:
  assumes "ret (download w p fileURL) = None"
  shows "\<exists>u c fp contents.
           url_Parse w fileURL = Inr u \<and>
           call (download w p fileURL) = Some (c, fp) \<and>
           DownloadFile w c fp = Inr contents \<and>
           stdout (download w p fileURL) =
             fileURL @ nl @ Path u @ nl @
             ''['' @ Join (Split (Path u) (CHR ''/'')) '' '' @ '']'' @ nl @ contents"
  using assms
  by (auto simp: download_def Let_def split: sum.splits if_splits)

lemma download_registry_update:
  "download (w\<lparr>GetRepoByName := reg\<rparr>) p fileURL = download w p fileURL"
  by (simp add: download_def Let_def cong: sum.case_cong if_cong)

lemma RunE_download:
  assumes "length args = 4" and "HasPrefix (args ! 3) ''cm://''"
  shows "RunE w env f args d =
     \<lparr>run_ret = ret (download w (setFieldsFromEnv env (newPushCmd f)) (args ! 3)),
      run_out = stdout (download w (setFieldsFromEnv env (newPushCmd f)) (args ! 3)),
      run_disk = d,
      run_call = call (download w (setFieldsFromEnv env (newPushCmd f)) (args ! 3))\<rparr>"
  using assms by (simp add: RunE_def Let_def)

lemma handlePushResponse_fault_update:
  "handlePushResponse (w\<lparr>RemoveAll_fault := f\<rparr>) resp = handlePushResponse w resp"
  by (simp add: handlePushResponse_def cong: sum.case_cong)

lemma defer_shape:
  "\<exists>r printed d'. \<forall>f.
     (case b of (r, printed, d') \<Rightarrow> (r, printed, snd (g f d'))) = (r, printed, snd (g f d'))"
  by (cases b) auto

lemma push_after_TempDir:
  assumes "GetRepoByName w (repoName p) = Inr repo"
    and "GetChartByName w (chartName p) = Inr chart"
    and "TempDir w d = Inr tmp"
  shows "\<exists>r printed d'. \<forall>f.
           push (w\<lparr>RemoveAll_fault := f\<rparr>) p d =
             (r, printed, snd (RemoveAll (w\<lparr>RemoveAll_fault := f\<rparr>) tmp d'))"
proof -
  have sel: "GetRepoByName (w\<lparr>RemoveAll_fault := f\<rparr>) = GetRepoByName w"
    "GetChartByName (w\<lparr>RemoveAll_fault := f\<rparr>) = GetChartByName w"
    "TempDir (w\<lparr>RemoveAll_fault := f\<rparr>) = TempDir w"
    "CreateChartPackage (w\<lparr>RemoveAll_fault := f\<rparr>) = CreateChartPackage w"
    "UploadChartPackage (w\<lparr>RemoveAll_fault := f\<rparr>) = UploadChartPackage w" for f
    by simp_all
  show ?thesis
    unfolding push_def Let_def
    by (simp only: sel handlePushResponse_fault_update assms sum.case)
      (rule defer_shape [where g = "\<lambda>f. RemoveAll (w\<lparr>RemoveAll_fault := f\<rparr>) tmp"])
qed

lemma push_reads_registry:
  "fst (push (sample_lib\<lparr>GetRepoByName := registry_empty\<rparr>) sample_cmd sample_disk) =
     Some (External ''no repositories configured'') \<and>
   fst (push (sample_lib\<lparr>GetRepoByName := registry_with_credentials\<rparr>) sample_cmd sample_disk) =
     None"
  by (simp add: push_def Let_def sample_lib_def sample_cmd_def registry_empty_def
      registry_with_credentials_def handlePushResponse_def)

section \<open>The instance, evaluated\<close>

lemma sample_push_reaches_TempDir:
  "GetRepoByName sample_lib (repoName sample_cmd) =
     Inr \<lparr>repo_URL = ''https://charts.example.com'', repo_Username = ''stored-user'',
          repo_Password = ''stored-pass''\<rparr>"
  "GetChartByName sample_lib (chartName sample_cmd) =
     Inr \<lparr>chart_Name = ''mychart'', chart_Version = ''0.1.0''\<rparr>"
  "TempDir sample_lib d = Inr ''/tmp/helm-push-1''"
  by (simp_all add: sample_lib_def sample_cmd_def)

lemma sample_args_download:
  "length sample_args = 4" "HasPrefix (sample_args ! 3) ''cm://''"
  "sample_args ! 3 = ''cm://host/a/b/foo-1.0.0.tgz''"
  by (simp_all add: sample_args_def HasPrefix_def)

lemma sample_resolved:
  "setFieldsFromEnv sample_env (newPushCmd sample_flags) =
     \<lparr>chartName = [], chartVersion = [], repoName = [], username = ''alice'',
      password = ''s3cret'', accessToken = [], contextPath = [], useHTTP = True\<rparr>"
  "setFieldsFromEnv (sample_env(''HELM_REPO_USE_HTTP'' := None)) (newPushCmd sample_flags) =
     \<lparr>chartName = [], chartVersion = [], repoName = [], username = ''alice'',
      password = ''s3cret'', accessToken = [], contextPath = [], useHTTP = False\<rparr>"
  by (simp_all add: setFieldsFromEnv_def Let_def sample_env_def newPushCmd_def sample_flags_def
      ParseBool_def)

lemma sample_run_call:
  "run_call (RunE sample_lib sample_env sample_flags sample_args sample_disk) =
     Some (\<lparr>cm_URL = ''http://host/a/b'', cm_Username = ''alice'', cm_Password = ''s3cret'',
             cm_AccessToken = [], cm_ContextPath = []\<rparr>, ''foo-1.0.0.tgz'')"
  "run_call (RunE sample_lib (sample_env(''HELM_REPO_USE_HTTP'' := None)) sample_flags
      sample_args sample_disk) =
     Some (\<lparr>cm_URL = ''https://host/a/b'', cm_Username = ''alice'', cm_Password = ''s3cret'',
             cm_AccessToken = [], cm_ContextPath = []\<rparr>, ''foo-1.0.0.tgz'')"
  by (simp_all add: RunE_download [OF sample_args_download(1,2)] sample_args_download(3)
      sample_resolved download_def Let_def sample_lib_def parse_hier_def render_hier_def
      HasPrefix_def)

section \<open>The claims\<close>

subsection \<open>C1: the charts rule of the download target\<close>

text \<open>
  C1. When the parsed path of the address splits on \<open>/\<close> into the segments
  \<open>segs @ [dir, fname]\<close>, \<^verbatim>\<open>download\<close> asks the client for the last segment \<open>fname\<close>. If the
  second-to-last segment \<open>dir\<close> is literally \<open>charts\<close>, the file path is \<open>charts/\<close> followed
  by \<open>fname\<close> and the base path keeps \<open>segs\<close> (two segments removed); otherwise the file
  path is \<open>fname\<close> and the base path keeps \<open>segs @ [dir]\<close> (one segment removed). The client
  is built against the rendering of the parsed URL with that base path.
\<close>

theorem download_charts_rule:
  assumes "url_Parse w fileURL = Inr u"
    and "Split (Path u) (CHR ''/'') = segs @ [dir, fname]"
  shows "\<exists>c. call (download w p fileURL) =
            Some (c, if dir = ''charts'' then ''charts/'' @ fname else fname) \<and>
          cm_URL c = url_String w
            (u\<lparr>Path := Join (if dir = ''charts'' then segs else segs @ [dir]) ''/'',
               Scheme := (if useHTTP p then ''http'' else ''https'')\<rparr>)"
  using download_call_Some [OF assms, of p] by simp

text \<open>
  The two addresses of the specification: \<^verbatim>\<open>cm://host/a/b/charts/foo-1.0.0.tgz\<close> gives the file
  path \<^verbatim>\<open>charts/foo-1.0.0.tgz\<close>, \<^verbatim>\<open>cm://host/a/b/foo-1.0.0.tgz\<close> gives \<^verbatim>\<open>foo-1.0.0.tgz\<close>, and
  both give the base path \<^verbatim>\<open>/a/b\<close>.
\<close>

theorem download_charts_rule_witness:
  "(\<exists>c. call (download sample_lib sample_cmd ''cm://host/a/b/charts/foo-1.0.0.tgz'') =
          Some (c, ''charts/foo-1.0.0.tgz'') \<and>
        cm_URL c = render_hier (cm_foo_charts\<lparr>Path := ''/a/b'', Scheme := ''https''\<rparr>) \<and>
        cm_URL c = ''https://host/a/b'') \<and>
   (\<exists>c. call (download sample_lib sample_cmd ''cm://host/a/b/foo-1.0.0.tgz'') =
          Some (c, ''foo-1.0.0.tgz'') \<and>
        cm_URL c = render_hier (cm_foo_plain\<lparr>Path := ''/a/b'', Scheme := ''https''\<rparr>) \<and>
        cm_URL c = ''https://host/a/b'')"
proof -
  have p1: "url_Parse sample_lib ''cm://host/a/b/charts/foo-1.0.0.tgz'' = Inr cm_foo_charts"
    by (simp add: sample_lib_def parse_hier_def HasPrefix_def cm_foo_charts_def)
  have s1: "Split (Path cm_foo_charts) (CHR ''/'') =
              [[], ''a'', ''b''] @ [''charts'', ''foo-1.0.0.tgz'']"
    by (simp add: cm_foo_charts_def)
  have p2: "url_Parse sample_lib ''cm://host/a/b/foo-1.0.0.tgz'' = Inr cm_foo_plain"
    by (simp add: sample_lib_def parse_hier_def HasPrefix_def cm_foo_plain_def)
  have s2: "Split (Path cm_foo_plain) (CHR ''/'') = [[], ''a''] @ [''b'', ''foo-1.0.0.tgz'']"
    by (simp add: cm_foo_plain_def)
  have r1: "render_hier (cm_foo_charts\<lparr>Path := ''/a/b'', Scheme := ''https''\<rparr>) =
              ''https://host/a/b''"
    by (simp add: render_hier_def cm_foo_charts_def)
  have r2: "render_hier (cm_foo_plain\<lparr>Path := ''/a/b'', Scheme := ''https''\<rparr>) =
              ''https://host/a/b''"
    by (simp add: render_hier_def cm_foo_plain_def)
  have u: "url_String sample_lib = render_hier" "useHTTP sample_cmd = False"
    by (simp_all add: sample_lib_def sample_cmd_def)
  from download_charts_rule [OF p1 s1, of sample_cmd]
    download_charts_rule [OF p2 s2, of sample_cmd]
  show ?thesis
    by (simp add: u r1 r2)
qed

subsection \<open>C2: classification of the upload response\<close>

text \<open>
  C2, as the program has it. \<^verbatim>\<open>handlePushResponse\<close> returns no error exactly when the status
  code is 201, whatever the body. For any other status whose body can be read, the error
  carries the status code and a message: the decoded \<^verbatim>\<open>error\<close> field when the body decodes
  and the field is not empty, and otherwise the fixed text
  \<^verbatim>\<open>could not properly parse response JSON: \<close> followed by the raw body.
\<close>

theorem handlePushResponse_classifies:
  "(fst (handlePushResponse w resp) = None) = (StatusCode resp = 201) \<and>
   (StatusCode resp \<noteq> 201 \<and> Body resp = Inr b \<longrightarrow>
      fst (handlePushResponse w resp) =
        Some (ServerError (StatusCode resp)
          (case json_Unmarshal w b of
             Inr er \<Rightarrow>
               (if er \<noteq> [] then er else ''could not properly parse response JSON: '' @ b)
           | Inl e \<Rightarrow> ''could not properly parse response JSON: '' @ b)))"
  by (simp add: handlePushResponse_def ServerError_def split: sum.splits)

text \<open>
  The three responses of the specification: 201 succeeds, 409 with an \<^verbatim>\<open>error\<close> field gives
  \<^verbatim>\<open>409: conflict\<close>, and 500 with a body that is not JSON gives the prefixed raw body.
\<close>

theorem handlePushResponse_classifies_witness:
  \<open>fst (handlePushResponse sample_lib \<lparr>StatusCode = 201, Body = Inr ''anything''\<rparr>) = None \<and>
   fst (handlePushResponse sample_lib \<lparr>StatusCode = 409, Body = Inr ''{"error":"conflict"}''\<rparr>) =
     Some (ServerError 409 ''conflict'') \<and>
   fst (handlePushResponse sample_lib \<lparr>StatusCode = 409, Body = Inr ''{"error":"conflict"}''\<rparr>) =
     Some (New ''409: conflict'') \<and>
   fst (handlePushResponse sample_lib \<lparr>StatusCode = 500, Body = Inr ''not json''\<rparr>) =
     Some (ServerError 500 ''could not properly parse response JSON: not json'')\<close>
proof -
  have j1: \<open>json_Unmarshal sample_lib ''{"error":"conflict"}'' = Inr ''conflict''\<close>
    by (simp add: sample_lib_def decode_error_object_def HasPrefix_def)
  have j2: \<open>json_Unmarshal sample_lib ''not json'' =
              Inl (External ''body outside the supported shape'')\<close>
    by (simp add: sample_lib_def decode_error_object_def HasPrefix_def)
  have e: "ServerError 409 ''conflict'' = New ''409: conflict''"
    by (simp add: ServerError_def Itoa_def digit_def)
  from handlePushResponse_classifies
      [of sample_lib "\<lparr>StatusCode = 201, Body = Inr ''anything''\<rparr>" "''anything''"]
    handlePushResponse_classifies
      [of sample_lib \<open>\<lparr>StatusCode = 409, Body = Inr ''{"error":"conflict"}''\<rparr>\<close>
          \<open>''{"error":"conflict"}''\<close>]
    handlePushResponse_classifies
      [of sample_lib "\<lparr>StatusCode = 500, Body = Inr ''not json''\<rparr>" "''not json''"]
  show ?thesis
    by (simp add: j1 j2 e)
qed

text \<open>
  The message for a body that does not decode is not the raw body alone: status 500 with the
  body \<^verbatim>\<open>not json\<close> does not give \<^verbatim>\<open>ServerError{500, "not json"}\<close>. That error is what
  the same status gives when \<^verbatim>\<open>not json\<close> is the decoded \<^verbatim>\<open>error\<close> field, and the two results
  differ.
\<close>

theorem handlePushResponse_raw_body_counterexample:
  \<open>fst (handlePushResponse sample_lib \<lparr>StatusCode = 500, Body = Inr ''not json''\<rparr>) =
     Some (New ''500: could not properly parse response JSON: not json'') \<and>
   fst (handlePushResponse sample_lib \<lparr>StatusCode = 500, Body = Inr ''not json''\<rparr>) \<noteq>
     Some (ServerError 500 ''not json'') \<and>
   fst (handlePushResponse sample_lib
          \<lparr>StatusCode = 500, Body = Inr ''{"error":"not json"}''\<rparr>) =
     Some (ServerError 500 ''not json'') \<and>
   fst (handlePushResponse sample_lib \<lparr>StatusCode = 500, Body = Inr ''not json''\<rparr>) \<noteq>
   fst (handlePushResponse sample_lib
          \<lparr>StatusCode = 500, Body = Inr ''{"error":"not json"}''\<rparr>)\<close>
  by (simp add: handlePushResponse_def ServerError_def sample_lib_def decode_error_object_def
      HasPrefix_def Itoa_def digit_def)

subsection \<open>C3: precedence for the four string fields\<close>

text \<open>
  C3. For each of \<^verbatim>\<open>username\<close>, \<^verbatim>\<open>password\<close>, \<^verbatim>\<open>accessToken\<close> and \<^verbatim>\<open>contextPath\<close>, for every
  command and environment: a non-empty value is kept whatever the environment holds; an empty
  one is replaced by the value of \<^verbatim>\<open>HELM_REPO_USERNAME\<close>, \<^verbatim>\<open>HELM_REPO_PASSWORD\<close>,
  \<^verbatim>\<open>HELM_REPO_ACCESS_TOKEN\<close> or \<^verbatim>\<open>HELM_REPO_CONTEXT_PATH\<close> when that variable is set, and stays
  empty otherwise.
\<close>

theorem setFieldsFromEnv_string_precedence:
  "username (setFieldsFromEnv env p) =
     (if username p \<noteq> [] then username p
      else (case env ''HELM_REPO_USERNAME'' of Some v \<Rightarrow> v | None \<Rightarrow> [])) \<and>
   password (setFieldsFromEnv env p) =
     (if password p \<noteq> [] then password p
      else (case env ''HELM_REPO_PASSWORD'' of Some v \<Rightarrow> v | None \<Rightarrow> [])) \<and>
   accessToken (setFieldsFromEnv env p) =
     (if accessToken p \<noteq> [] then accessToken p
      else (case env ''HELM_REPO_ACCESS_TOKEN'' of Some v \<Rightarrow> v | None \<Rightarrow> [])) \<and>
   contextPath (setFieldsFromEnv env p) =
     (if contextPath p \<noteq> [] then contextPath p
      else (case env ''HELM_REPO_CONTEXT_PATH'' of Some v \<Rightarrow> v | None \<Rightarrow> []))"
  by (simp add: setFieldsFromEnv_username setFieldsFromEnv_password
      setFieldsFromEnv_accessToken setFieldsFromEnv_contextPath resolve_def)

text \<open>
  All three cases at once: the flag \<open>alice\<close> wins over the environment's \<open>bob\<close>, the empty
  password takes the environment's value, and the access token and context path, set by
  neither, stay empty.
\<close>

theorem setFieldsFromEnv_string_precedence_witness:
  "username (setFieldsFromEnv sample_env sample_cmd) = ''alice'' \<and>
   password (setFieldsFromEnv sample_env sample_cmd) = ''s3cret'' \<and>
   accessToken (setFieldsFromEnv sample_env sample_cmd) = [] \<and>
   contextPath (setFieldsFromEnv sample_env sample_cmd) = []"
  using setFieldsFromEnv_string_precedence [of sample_env sample_cmd]
  by (simp add: sample_env_def sample_cmd_def)

subsection \<open>C4: the environment overwrites useHTTP\<close>

text \<open>
  C4. When \<^verbatim>\<open>HELM_REPO_USE_HTTP\<close> is set to \<open>v\<close>, the resolved \<^verbatim>\<open>useHTTP\<close> is the boolean
  \<^verbatim>\<open>strconv.ParseBool\<close> returns for \<open>v\<close>, whatever the field held before: true exactly for the
  six truthy spellings, and false for a string \<^verbatim>\<open>ParseBool\<close> rejects. \<open>setFieldsFromEnv\<close> returns
  the command alone, so no error is reported.
\<close>

theorem setFieldsFromEnv_useHTTP_overwrites:
  assumes "env ''HELM_REPO_USE_HTTP'' = Some v"
  shows "useHTTP (setFieldsFromEnv env p) = fst (ParseBool v) \<and>
         useHTTP (setFieldsFromEnv env p) =
           (v \<in> set [''1'', ''t'', ''T'', ''true'', ''TRUE'', ''True'']) \<and>
         (snd (ParseBool v) \<noteq> None \<longrightarrow> useHTTP (setFieldsFromEnv env p) = False)"
  using assms by (simp add: setFieldsFromEnv_useHTTP ParseBool_def)

text \<open>
  \<open>true\<close> turns a false field on, and the malformed \<open>yes\<close> turns a true field off.
\<close>

theorem setFieldsFromEnv_useHTTP_overwrites_witness:
  "sample_env ''HELM_REPO_USE_HTTP'' = Some ''true'' \<and>
   useHTTP sample_cmd = False \<and>
   useHTTP (setFieldsFromEnv sample_env sample_cmd) = True \<and>
   (sample_env(''HELM_REPO_USE_HTTP'' \<mapsto> ''yes'')) ''HELM_REPO_USE_HTTP'' = Some ''yes'' \<and>
   snd (ParseBool ''yes'') \<noteq> None \<and>
   useHTTP (setFieldsFromEnv (sample_env(''HELM_REPO_USE_HTTP'' \<mapsto> ''yes''))
      (sample_cmd\<lparr>useHTTP := True\<rparr>)) = False"
proof -
  have a: "sample_env ''HELM_REPO_USE_HTTP'' = Some ''true''"
    by (simp add: sample_env_def)
  have b: "(sample_env(''HELM_REPO_USE_HTTP'' \<mapsto> ''yes'')) ''HELM_REPO_USE_HTTP'' = Some ''yes''"
    by simp
  have c: "snd (ParseBool ''yes'') \<noteq> None"
    by (simp add: ParseBool_def)
  have t: "useHTTP (setFieldsFromEnv sample_env sample_cmd)"
    using setFieldsFromEnv_useHTTP_overwrites [of sample_env "''true''" sample_cmd, OF a] by (simp add: ParseBool_def)
  have f: "\<not> useHTTP (setFieldsFromEnv (sample_env(''HELM_REPO_USE_HTTP'' \<mapsto> ''yes''))
      (sample_cmd\<lparr>useHTTP := True\<rparr>))"
    using setFieldsFromEnv_useHTTP_overwrites [of "sample_env(''HELM_REPO_USE_HTTP'' \<mapsto> ''yes'')" "''yes''"
          "sample_cmd\<lparr>useHTTP := True\<rparr>", OF b] by (simp add: ParseBool_def)
  have g: "useHTTP sample_cmd = False"
    by (simp add: sample_cmd_def)
  from a b c t f g show ?thesis
    by simp
qed

subsection \<open>C5: paths with fewer than two segments\<close>

text \<open>
  C5, as the program has it. The parsed path splits into fewer than two segments exactly when
  it contains no \<open>/\<close>; then \<^verbatim>\<open>download\<close> fails with \<^verbatim>\<open>invalid file url\<close> and issues no download.
  With two or more segments a download is issued.
\<close>

theorem download_rejects_short_path:
  assumes "url_Parse w fileURL = Inr u"
  shows "(length (Split (Path u) (CHR ''/'')) < 2) = (CHR ''/'' \<notin> set (Path u)) \<and>
         (length (Split (Path u) (CHR ''/'')) < 2 \<longrightarrow>
            ret (download w p fileURL) = Some (InvalidURI fileURL) \<and>
            call (download w p fileURL) = None) \<and>
         (2 \<le> length (Split (Path u) (CHR ''/'')) \<longrightarrow>
            call (download w p fileURL) \<noteq> None)"
proof -
  have a: "(length (Split (Path u) (CHR ''/'')) < 2) = (CHR ''/'' \<notin> set (Path u))"
    using Split_short [of "Path u" "CHR ''/''"] by auto
  have b: "ret (download w p fileURL) = Some (InvalidURI fileURL) \<and>
           call (download w p fileURL) = None"
    if "length (Split (Path u) (CHR ''/'')) < 2"
    using that download_call_None [OF assms, of p] by (simp add: InvalidURI_def)
  have c: "call (download w p fileURL) \<noteq> None" if "2 \<le> length (Split (Path u) (CHR ''/''))"
  proof -
    from Split_two_or_more [OF that] obtain segs dir fname
      where "Split (Path u) (CHR ''/'') = segs @ [dir, fname]" by blast
    from download_call_Some [OF assms this, of p] show ?thesis by simp
  qed
  from a b c show ?thesis by blast
qed

text \<open>
  \<^verbatim>\<open>cm://host\<close> has the empty path and is rejected; \<^verbatim>\<open>cm://host/foo.tgz\<close> is not.
\<close>

theorem download_rejects_short_path_witness:
  "url_Parse sample_lib ''cm://host'' = Inr cm_host_only \<and>
   length (Split (Path cm_host_only) (CHR ''/'')) < 2 \<and>
   ret (download sample_lib sample_cmd ''cm://host'') = Some (InvalidURI ''cm://host'') \<and>
   call (download sample_lib sample_cmd ''cm://host'') = None \<and>
   url_Parse sample_lib ''cm://host/foo.tgz'' = Inr cm_foo_root \<and>
   2 \<le> length (Split (Path cm_foo_root) (CHR ''/'')) \<and>
   call (download sample_lib sample_cmd ''cm://host/foo.tgz'') \<noteq> None"
proof -
  have a: "url_Parse sample_lib ''cm://host'' = Inr cm_host_only"
    by (simp add: sample_lib_def parse_hier_def HasPrefix_def cm_host_only_def)
  have b: "length (Split (Path cm_host_only) (CHR ''/'')) < 2"
    by (simp add: cm_host_only_def)
  have c: "url_Parse sample_lib ''cm://host/foo.tgz'' = Inr cm_foo_root"
    by (simp add: sample_lib_def parse_hier_def HasPrefix_def cm_foo_root_def)
  have d: "2 \<le> length (Split (Path cm_foo_root) (CHR ''/''))"
    by (simp add: cm_foo_root_def)
  from download_rejects_short_path [OF a, of sample_cmd] download_rejects_short_path [OF c, of sample_cmd] a b c d show ?thesis
    by simp
qed

text \<open>
  The address \<^verbatim>\<open>cm://host/foo.tgz\<close> of the specification has the path \<^verbatim>\<open>/foo.tgz\<close>, which splits
  into the two segments, the empty one and \<open>foo.tgz\<close>: the program does not fail, it downloads
  \<^verbatim>\<open>foo.tgz\<close> from \<^verbatim>\<open>https://host\<close>.
\<close>

theorem download_single_segment_counterexample:
  "url_Parse sample_lib ''cm://host/foo.tgz'' = Inr cm_foo_root \<and>
   Split (Path cm_foo_root) (CHR ''/'') = [[], ''foo.tgz''] \<and>
   ret (download sample_lib sample_cmd ''cm://host/foo.tgz'') = None \<and>
   ret (download sample_lib sample_cmd ''cm://host/foo.tgz'') \<noteq>
     Some (InvalidURI ''cm://host/foo.tgz'') \<and>
   call (download sample_lib sample_cmd ''cm://host/foo.tgz'') =
     Some (\<lparr>cm_URL = ''https://host'', cm_Username = ''alice'', cm_Password = [],
             cm_AccessToken = [], cm_ContextPath = []\<rparr>, ''foo.tgz'')"
  by (simp add: download_def Let_def sample_lib_def sample_cmd_def parse_hier_def
      render_hier_def HasPrefix_def cm_foo_root_def)

subsection \<open>C6: the scheme is forced\<close>

text \<open>
  C6. Whenever \<^verbatim>\<open>download\<close> builds a client, its URL is the rendering of the parsed URL with
  the scheme replaced by \<open>http\<close> when \<^verbatim>\<open>useHTTP\<close> is true and by \<open>https\<close> when it is false; the
  scheme of the input plays no part. A client is built for every address that parses with a
  path of two or more segments.
\<close>

theorem download_forces_scheme:
  "(\<forall>c fp. call (download w p fileURL) = Some (c, fp) \<longrightarrow>
      (\<exists>u base. url_Parse w fileURL = Inr u \<and>
         cm_URL c = url_String w
           (u\<lparr>Path := base, Scheme := (if useHTTP p then ''http'' else ''https'')\<rparr>))) \<and>
   (\<forall>u. url_Parse w fileURL = Inr u \<and> 2 \<le> length (Split (Path u) (CHR ''/'')) \<longrightarrow>
      call (download w p fileURL) \<noteq> None)"
proof -
  have a: "\<exists>u base. url_Parse w fileURL = Inr u \<and>
         cm_URL c = url_String w
           (u\<lparr>Path := base, Scheme := (if useHTTP p then ''http'' else ''https'')\<rparr>)"
    if "call (download w p fileURL) = Some (c, fp)" for c fp
    using download_call_cases [OF that] by blast
  have b: "call (download w p fileURL) \<noteq> None"
    if "url_Parse w fileURL = Inr u" and "2 \<le> length (Split (Path u) (CHR ''/''))" for u
  proof -
    from Split_two_or_more [OF that(2)] obtain segs dir fname
      where "Split (Path u) (CHR ''/'') = segs @ [dir, fname]" by blast
    from download_call_Some [OF that(1) this, of p] show ?thesis by simp
  qed
  from a b show ?thesis by blast
qed

text \<open>
  The same \<^verbatim>\<open>cm://\<close> address gives \<^verbatim>\<open>http://host/a/b\<close> with \<^verbatim>\<open>useHTTP\<close> and \<^verbatim>\<open>https://host/a/b\<close>
  without.
\<close>

theorem download_forces_scheme_witness:
  "call (download sample_lib (sample_cmd\<lparr>useHTTP := True\<rparr>) ''cm://host/a/b/foo-1.0.0.tgz'') =
     Some (sample_client ''http://host/a/b'', ''foo-1.0.0.tgz'') \<and>
   (\<exists>u base. url_Parse sample_lib ''cm://host/a/b/foo-1.0.0.tgz'' = Inr u \<and>
      cm_URL (sample_client ''http://host/a/b'') =
        url_String sample_lib (u\<lparr>Path := base, Scheme := ''http''\<rparr>)) \<and>
   call (download sample_lib sample_cmd ''cm://host/a/b/foo-1.0.0.tgz'') =
     Some (sample_client ''https://host/a/b'', ''foo-1.0.0.tgz'') \<and>
   (\<exists>u base. url_Parse sample_lib ''cm://host/a/b/foo-1.0.0.tgz'' = Inr u \<and>
      cm_URL (sample_client ''https://host/a/b'') =
        url_String sample_lib (u\<lparr>Path := base, Scheme := ''https''\<rparr>)) \<and>
   Scheme cm_foo_plain = ''cm'' \<and>
   url_Parse sample_lib ''cm://host/a/b/foo-1.0.0.tgz'' = Inr cm_foo_plain \<and>
   2 \<le> length (Split (Path cm_foo_plain) (CHR ''/''))"
proof -
  have a: "call (download sample_lib (sample_cmd\<lparr>useHTTP := True\<rparr>)
              ''cm://host/a/b/foo-1.0.0.tgz'') =
            Some (sample_client ''http://host/a/b'', ''foo-1.0.0.tgz'')"
    by (simp add: download_def Let_def sample_lib_def sample_cmd_def parse_hier_def
        render_hier_def HasPrefix_def sample_client_def)
  have b: "call (download sample_lib sample_cmd ''cm://host/a/b/foo-1.0.0.tgz'') =
            Some (sample_client ''https://host/a/b'', ''foo-1.0.0.tgz'')"
    by (simp add: download_def Let_def sample_lib_def sample_cmd_def parse_hier_def
        render_hier_def HasPrefix_def sample_client_def)
  have c: "url_Parse sample_lib ''cm://host/a/b/foo-1.0.0.tgz'' = Inr cm_foo_plain"
    by (simp add: sample_lib_def parse_hier_def HasPrefix_def cm_foo_plain_def)
  have d: "Scheme cm_foo_plain = ''cm''" "2 \<le> length (Split (Path cm_foo_plain) (CHR ''/''))"
    by (simp_all add: cm_foo_plain_def)
  have e: "useHTTP (sample_cmd\<lparr>useHTTP := True\<rparr>) = True" "useHTTP sample_cmd = False"
    by (simp_all add: sample_cmd_def)
  from download_forces_scheme [of sample_lib "sample_cmd\<lparr>useHTTP := True\<rparr>" "''cm://host/a/b/foo-1.0.0.tgz''"] a e
  have a': "\<exists>u base. url_Parse sample_lib ''cm://host/a/b/foo-1.0.0.tgz'' = Inr u \<and>
      cm_URL (sample_client ''http://host/a/b'') =
        url_String sample_lib (u\<lparr>Path := base, Scheme := ''http''\<rparr>)"
    by simp
  from download_forces_scheme [of sample_lib sample_cmd "''cm://host/a/b/foo-1.0.0.tgz''"] b e
  have b': "\<exists>u base. url_Parse sample_lib ''cm://host/a/b/foo-1.0.0.tgz'' = Inr u \<and>
      cm_URL (sample_client ''https://host/a/b'') =
        url_String sample_lib (u\<lparr>Path := base, Scheme := ''https''\<rparr>)"
    by simp
  from a b c d a' b' show ?thesis by blast
qed

subsection \<open>C7: the temporary directory is removed\<close>

text \<open>
  C7, as the program has it. Once \<^verbatim>\<open>push\<close> has created the temporary directory \<open>tmp\<close> (the
  repository and the chart were found and \<^verbatim>\<open>ioutil.TempDir\<close> succeeded), every exit path ends
  with \<^verbatim>\<open>os.RemoveAll(tmp)\<close>: the disk \<^verbatim>\<open>push\<close> leaves is the disk that call leaves, for every
  behaviour of packaging, upload and response handling. The call's error is discarded: the
  returned error and the printed text are the same whether or not the removal fails. Whenever
  the call returns no error, neither \<open>tmp\<close> nor any path beneath it exists on the disk
  \<^verbatim>\<open>push\<close> leaves.
\<close>

theorem push_removes_tmp:
  assumes "GetRepoByName w (repoName p) = Inr repo"
    and "GetChartByName w (chartName p) = Inr chart"
    and "TempDir w d = Inr tmp"
  shows "\<exists>r printed d'.
           push w p d = (r, printed, snd (RemoveAll w tmp d')) \<and>
           (\<forall>f. push (w\<lparr>RemoveAll_fault := f\<rparr>) p d =
                  (r, printed, snd (RemoveAll (w\<lparr>RemoveAll_fault := f\<rparr>) tmp d'))) \<and>
           (fst (RemoveAll w tmp d') = None \<longrightarrow>
              tmp \<notin> snd (snd (push w p d)) \<and>
              (\<forall>q. HasPrefix q (tmp @ ''/'') \<longrightarrow> q \<notin> snd (snd (push w p d))))"
proof -
  from push_after_TempDir [OF assms] obtain r printed d'
    where a: "\<And>f. push (w\<lparr>RemoveAll_fault := f\<rparr>) p d =
                 (r, printed, snd (RemoveAll (w\<lparr>RemoveAll_fault := f\<rparr>) tmp d'))"
    by blast
  have "w\<lparr>RemoveAll_fault := RemoveAll_fault w\<rparr> = w"
    by simp
  with a [of "RemoveAll_fault w"]
  have b: "push w p d = (r, printed, snd (RemoveAll w tmp d'))"
    by simp
  have c: "tmp \<notin> snd (snd (push w p d)) \<and>
           (\<forall>q. HasPrefix q (tmp @ ''/'') \<longrightarrow> q \<notin> snd (snd (push w p d)))"
    if "fst (RemoveAll w tmp d') = None"
    using b RemoveAll_nil [OF that]
    by (simp add: remove_tree_gone remove_tree_beneath_gone)
  show ?thesis
    by (intro exI [of _ r] exI [of _ printed] exI [of _ d']) (use a b c in blast)
qed

text \<open>
  The four exit paths with a removal that succeeds: success, packaging failure (which left a
  partial file behind), upload transport failure and an error reported by the server. A
  removal that fails changes neither the returned error nor the printed text.
\<close>

theorem push_removes_tmp_witness:
  "fst (push sample_lib sample_cmd sample_disk) = None \<and>
   ''/tmp/helm-push-1'' \<notin> snd (snd (push sample_lib sample_cmd sample_disk)) \<and>
   ''/tmp/helm-push-1/mychart-0.1.0.tgz'' \<notin> snd (snd (push sample_lib sample_cmd sample_disk)) \<and>
   fst (push sample_packaging_fails sample_cmd sample_disk) = Some (External ''packaging failed'') \<and>
   ''/tmp/helm-push-1'' \<notin> snd (snd (push sample_packaging_fails sample_cmd sample_disk)) \<and>
   ''/tmp/helm-push-1/partial.tgz'' \<notin>
     snd (snd (push sample_packaging_fails sample_cmd sample_disk)) \<and>
   fst (push sample_upload_fails sample_cmd sample_disk) = Some (External ''connection refused'') \<and>
   ''/tmp/helm-push-1'' \<notin> snd (snd (push sample_upload_fails sample_cmd sample_disk)) \<and>
   fst (push sample_server_rejects sample_cmd sample_disk) = Some (New ''409: conflict'') \<and>
   ''/tmp/helm-push-1'' \<notin> snd (snd (push sample_server_rejects sample_cmd sample_disk)) \<and>
   fst (push (sample_lib\<lparr>RemoveAll_fault := removal_denied\<rparr>) sample_cmd sample_disk) =
     fst (push sample_lib sample_cmd sample_disk) \<and>
   fst (snd (push (sample_lib\<lparr>RemoveAll_fault := removal_denied\<rparr>) sample_cmd sample_disk)) =
     fst (snd (push sample_lib sample_cmd sample_disk))"
proof -
  note reach = sample_push_reaches_TempDir
  have r1: "fst (push sample_lib sample_cmd sample_disk) = None"
    by (simp add: push_def Let_def sample_lib_def sample_cmd_def handlePushResponse_def
        SetVersion_def)
  have r2: "fst (push sample_packaging_fails sample_cmd sample_disk) =
              Some (External ''packaging failed'')"
    by (simp add: push_def Let_def sample_packaging_fails_def sample_lib_def sample_cmd_def)
  have r3: "fst (push sample_upload_fails sample_cmd sample_disk) =
              Some (External ''connection refused'')"
    by (simp add: push_def Let_def sample_upload_fails_def sample_lib_def sample_cmd_def)
  have r4: "fst (push sample_server_rejects sample_cmd sample_disk) = Some (New ''409: conflict'')"
    by (simp add: push_def Let_def sample_server_rejects_def sample_lib_def sample_cmd_def
        handlePushResponse_def decode_error_object_def HasPrefix_def Itoa_def digit_def)
  have pre: "HasPrefix ''/tmp/helm-push-1/mychart-0.1.0.tgz'' (''/tmp/helm-push-1'' @ ''/'')"
    "HasPrefix ''/tmp/helm-push-1/partial.tgz'' (''/tmp/helm-push-1'' @ ''/'')"
    by (simp_all add: HasPrefix_def)
  have w1: "GetRepoByName sample_packaging_fails = GetRepoByName sample_lib"
    "GetChartByName sample_packaging_fails = GetChartByName sample_lib"
    "TempDir sample_packaging_fails = TempDir sample_lib"
    by (simp_all add: sample_packaging_fails_def)
  have w2: "GetRepoByName sample_upload_fails = GetRepoByName sample_lib"
    "GetChartByName sample_upload_fails = GetChartByName sample_lib"
    "TempDir sample_upload_fails = TempDir sample_lib"
    by (simp_all add: sample_upload_fails_def)
  have w3: "GetRepoByName sample_server_rejects = GetRepoByName sample_lib"
    "GetChartByName sample_server_rejects = GetChartByName sample_lib"
    "TempDir sample_server_rejects = TempDir sample_lib"
    by (simp_all add: sample_server_rejects_def)
  have nil: "fst (RemoveAll sample_lib path x) = None"
    "fst (RemoveAll sample_packaging_fails path x) = None"
    "fst (RemoveAll sample_upload_fails path x) = None"
    "fst (RemoveAll sample_server_rejects path x) = None" for path x
    by (simp_all add: RemoveAll_def sample_lib_def sample_packaging_fails_def
        sample_upload_fails_def sample_server_rejects_def)
  note t0 = push_removes_tmp [of sample_lib sample_cmd _ _ sample_disk, OF reach]
  from t0
  have g1: "''/tmp/helm-push-1'' \<notin> snd (snd (push sample_lib sample_cmd sample_disk)) \<and>
      (\<forall>q. HasPrefix q (''/tmp/helm-push-1'' @ ''/'') \<longrightarrow>
           q \<notin> snd (snd (push sample_lib sample_cmd sample_disk)))"
    by (elim exE conjE) (simp add: nil)
  from push_removes_tmp [of sample_packaging_fails sample_cmd _ _ sample_disk, unfolded w1,
      OF reach]
  have g2: "''/tmp/helm-push-1'' \<notin> snd (snd (push sample_packaging_fails sample_cmd sample_disk)) \<and>
      (\<forall>q. HasPrefix q (''/tmp/helm-push-1'' @ ''/'') \<longrightarrow>
           q \<notin> snd (snd (push sample_packaging_fails sample_cmd sample_disk)))"
    by (elim exE conjE) (simp add: nil)
  from push_removes_tmp [of sample_upload_fails sample_cmd _ _ sample_disk, unfolded w2,
      OF reach]
  have g3: "''/tmp/helm-push-1'' \<notin> snd (snd (push sample_upload_fails sample_cmd sample_disk))"
    by (elim exE conjE) (simp add: nil)
  from push_removes_tmp [of sample_server_rejects sample_cmd _ _ sample_disk, unfolded w3,
      OF reach]
  have g4: "''/tmp/helm-push-1'' \<notin> snd (snd (push sample_server_rejects sample_cmd sample_disk))"
    by (elim exE conjE) (simp add: nil)
  from t0 obtain r printed d'
    where "push sample_lib sample_cmd sample_disk =
             (r, printed, snd (RemoveAll sample_lib ''/tmp/helm-push-1'' d'))"
      and "push (sample_lib\<lparr>RemoveAll_fault := removal_denied\<rparr>) sample_cmd sample_disk =
             (r, printed,
              snd (RemoveAll (sample_lib\<lparr>RemoveAll_fault := removal_denied\<rparr>)
                     ''/tmp/helm-push-1'' d'))"
    by blast
  then have same:
    "fst (push (sample_lib\<lparr>RemoveAll_fault := removal_denied\<rparr>) sample_cmd sample_disk) =
       fst (push sample_lib sample_cmd sample_disk)"
    "fst (snd (push (sample_lib\<lparr>RemoveAll_fault := removal_denied\<rparr>) sample_cmd sample_disk)) =
       fst (snd (push sample_lib sample_cmd sample_disk))"
    by simp_all
  from g1 g2 g3 g4 r1 r2 r3 r4 pre same show ?thesis
    by blast
qed

text \<open>
  The directory can outlive \<^verbatim>\<open>push\<close>. When \<^verbatim>\<open>os.RemoveAll\<close> fails without removing anything,
  \<^verbatim>\<open>push\<close> still returns what it would have returned (success, or the packaging error), and
  the temporary directory, with what packaging left in it, is on the disk afterwards.
\<close>

theorem push_leaves_tmp_counterexample:
  "TempDir (sample_lib\<lparr>RemoveAll_fault := removal_denied\<rparr>) sample_disk =
     Inr ''/tmp/helm-push-1'' \<and>
   fst (push (sample_lib\<lparr>RemoveAll_fault := removal_denied\<rparr>) sample_cmd sample_disk) = None \<and>
   ''/tmp/helm-push-1'' \<in>
     snd (snd (push (sample_lib\<lparr>RemoveAll_fault := removal_denied\<rparr>) sample_cmd sample_disk)) \<and>
   ''/tmp/helm-push-1/mychart-0.1.0.tgz'' \<in>
     snd (snd (push (sample_lib\<lparr>RemoveAll_fault := removal_denied\<rparr>) sample_cmd sample_disk)) \<and>
   fst (push (sample_packaging_fails\<lparr>RemoveAll_fault := removal_denied\<rparr>) sample_cmd
          sample_disk) = Some (External ''packaging failed'') \<and>
   ''/tmp/helm-push-1'' \<in>
     snd (snd (push (sample_packaging_fails\<lparr>RemoveAll_fault := removal_denied\<rparr>) sample_cmd
                 sample_disk)) \<and>
   ''/tmp/helm-push-1/partial.tgz'' \<in>
     snd (snd (push (sample_packaging_fails\<lparr>RemoveAll_fault := removal_denied\<rparr>) sample_cmd
                 sample_disk))"
  by (simp add: push_def Let_def RemoveAll_def removal_denied_def sample_lib_def
      sample_packaging_fails_def sample_cmd_def handlePushResponse_def SetVersion_def)

subsection \<open>C8: what a successful download prints\<close>

text \<open>
  C8 does not hold of the program. A successful download of \<^verbatim>\<open>cm://host/a/b/foo-1.0.0.tgz\<close>
  whose body is \<open>chart-bytes\<close> prints three lines before the body: the address, the parsed
  path and the list of path segments (lines 150, 156 and 163 of main.go). The body follows
  them unchanged.
\<close>

theorem download_stdout_debug_lines:
  "ret (download sample_lib sample_cmd ''cm://host/a/b/foo-1.0.0.tgz'') = None \<and>
   DownloadFile sample_lib (sample_client ''https://host/a/b'') ''foo-1.0.0.tgz'' =
     Inr ''chart-bytes'' \<and>
   stdout (download sample_lib sample_cmd ''cm://host/a/b/foo-1.0.0.tgz'') =
     ''cm://host/a/b/foo-1.0.0.tgz'' @ nl @ ''/a/b/foo-1.0.0.tgz'' @ nl @
     ''[ a b foo-1.0.0.tgz]'' @ nl @ ''chart-bytes'' \<and>
   stdout (download sample_lib sample_cmd ''cm://host/a/b/foo-1.0.0.tgz'') \<noteq> ''chart-bytes''"
  by (simp add: download_def Let_def sample_lib_def sample_cmd_def parse_hier_def
      render_hier_def HasPrefix_def nl_def)

subsection \<open>C9: no flag sets useHTTP\<close>

text \<open>
  C9. The command \<^verbatim>\<open>newPushCmd\<close> builds has \<^verbatim>\<open>useHTTP\<close> false for every flag value. When the
  environment does not set \<^verbatim>\<open>HELM_REPO_USE_HTTP\<close> it stays false, and every client a download
  invocation builds is built against a URL with the scheme \<open>https\<close>. Conversely, when
  \<^verbatim>\<open>useHTTP\<close> is true after resolution, the variable is set to one of the truthy spellings.
\<close>

theorem useHTTP_only_from_environment:
  "useHTTP (newPushCmd f) = False \<and>
   (env ''HELM_REPO_USE_HTTP'' = None \<longrightarrow>
      useHTTP (setFieldsFromEnv env (newPushCmd f)) = False) \<and>
   (env ''HELM_REPO_USE_HTTP'' = None \<and> length args = 4 \<and> HasPrefix (args ! 3) ''cm://'' \<longrightarrow>
      (\<forall>c fp. run_call (RunE w env f args d) = Some (c, fp) \<longrightarrow>
         (\<exists>u base. url_Parse w (args ! 3) = Inr u \<and>
            cm_URL c = url_String w (u\<lparr>Path := base, Scheme := ''https''\<rparr>)))) \<and>
   (useHTTP (setFieldsFromEnv env (newPushCmd f)) \<longrightarrow>
      (\<exists>v. env ''HELM_REPO_USE_HTTP'' = Some v \<and>
           v \<in> set [''1'', ''t'', ''T'', ''true'', ''TRUE'', ''True'']))"
proof -
  have a: "useHTTP (newPushCmd f) = False"
    by (simp add: newPushCmd_def)
  have b: "useHTTP (setFieldsFromEnv env (newPushCmd f)) = False"
    if "env ''HELM_REPO_USE_HTTP'' = None"
    using that a by (simp add: setFieldsFromEnv_useHTTP)
  have c: "\<exists>u base. url_Parse w (args ! 3) = Inr u \<and>
            cm_URL c = url_String w (u\<lparr>Path := base, Scheme := ''https''\<rparr>)"
    if "env ''HELM_REPO_USE_HTTP'' = None" and "length args = 4"
      and "HasPrefix (args ! 3) ''cm://''" and "run_call (RunE w env f args d) = Some (c, fp)"
    for c fp
  proof -
    from that(4) have "call (download w (setFieldsFromEnv env (newPushCmd f)) (args ! 3)) =
        Some (c, fp)"
      by (simp add: RunE_download [OF that(2,3)])
    from download_call_cases [OF this] b [OF that(1)] show ?thesis
      by auto
  qed
  have e: "\<exists>v. env ''HELM_REPO_USE_HTTP'' = Some v \<and>
           v \<in> set [''1'', ''t'', ''T'', ''true'', ''TRUE'', ''True'']"
    if "useHTTP (setFieldsFromEnv env (newPushCmd f))"
  proof (cases "env ''HELM_REPO_USE_HTTP''")
    case None
    from b [OF this] that show ?thesis by simp
  next
    case (Some v)
    with that have "fst (ParseBool v)"
      by (simp add: setFieldsFromEnv_useHTTP)
    with Some show ?thesis
      unfolding ParseBool_True by blast
  qed
  from a b c e show ?thesis by blast
qed

text \<open>
  Without the variable the download goes to \<^verbatim>\<open>https://host/a/b\<close>; with it set to \<open>true\<close> the
  field is on.
\<close>

theorem useHTTP_only_from_environment_witness:
  "(sample_env(''HELM_REPO_USE_HTTP'' := None)) ''HELM_REPO_USE_HTTP'' = None \<and>
   length sample_args = 4 \<and> HasPrefix (sample_args ! 3) ''cm://'' \<and>
   useHTTP (setFieldsFromEnv (sample_env(''HELM_REPO_USE_HTTP'' := None))
      (newPushCmd sample_flags)) = False \<and>
   run_call (RunE sample_lib (sample_env(''HELM_REPO_USE_HTTP'' := None)) sample_flags
      sample_args sample_disk) =
     Some (\<lparr>cm_URL = ''https://host/a/b'', cm_Username = ''alice'', cm_Password = ''s3cret'',
             cm_AccessToken = [], cm_ContextPath = []\<rparr>, ''foo-1.0.0.tgz'') \<and>
   (\<exists>u base. url_Parse sample_lib (sample_args ! 3) = Inr u \<and>
      ''https://host/a/b'' = url_String sample_lib (u\<lparr>Path := base, Scheme := ''https''\<rparr>)) \<and>
   useHTTP (setFieldsFromEnv sample_env (newPushCmd sample_flags)) \<and>
   (\<exists>v. sample_env ''HELM_REPO_USE_HTTP'' = Some v \<and>
        v \<in> set [''1'', ''t'', ''T'', ''true'', ''TRUE'', ''True''])"
proof -
  let ?env = "sample_env(''HELM_REPO_USE_HTTP'' := None)"
  note inst = useHTTP_only_from_environment [of sample_flags ?env sample_args sample_lib sample_disk]
  note inst' = useHTTP_only_from_environment [of sample_flags sample_env sample_args sample_lib sample_disk]
  have a: "?env ''HELM_REPO_USE_HTTP'' = None" by simp
  have b: "useHTTP (setFieldsFromEnv ?env (newPushCmd sample_flags)) = False"
    using inst a by blast
  have c: "\<exists>u base. url_Parse sample_lib (sample_args ! 3) = Inr u \<and>
      ''https://host/a/b'' = url_String sample_lib (u\<lparr>Path := base, Scheme := ''https''\<rparr>)"
    using inst a sample_args_download(1,2) sample_run_call(2) by fastforce
  have d: "useHTTP (setFieldsFromEnv sample_env (newPushCmd sample_flags))"
    by (simp add: sample_resolved)
  have e: "\<exists>v. sample_env ''HELM_REPO_USE_HTTP'' = Some v \<and>
        v \<in> set [''1'', ''t'', ''T'', ''true'', ''TRUE'', ''True'']"
    using inst' d by blast
  from a b c d e sample_args_download(1,2) sample_run_call(2) show ?thesis
    by blast
qed

subsection \<open>C10: download does not depend on the repository registry\<close>

text \<open>
  C10. For a download invocation (four arguments, the last starting with \<^verbatim>\<open>cm://\<close>) the whole
  run, and with it the download request (URL, user name, password, access token, context
  path and file path), is the same for any two repository registries. The credentials of the
  request are the values resolved from the flags and the environment.
\<close>

theorem download_never_reads_registry:
  assumes "length args = 4" and "HasPrefix (args ! 3) ''cm://''"
  shows "RunE (w\<lparr>GetRepoByName := reg1\<rparr>) env f args d =
           RunE (w\<lparr>GetRepoByName := reg2\<rparr>) env f args d \<and>
         (\<forall>c fp. run_call (RunE w env f args d) = Some (c, fp) \<longrightarrow>
            cm_Username c = resolve (flag_username f) (env ''HELM_REPO_USERNAME'') \<and>
            cm_Password c = resolve (flag_password f) (env ''HELM_REPO_PASSWORD'') \<and>
            cm_AccessToken c = resolve (flag_access_token f) (env ''HELM_REPO_ACCESS_TOKEN'') \<and>
            cm_ContextPath c = resolve (flag_context_path f) (env ''HELM_REPO_CONTEXT_PATH''))"
proof -
  have a: "RunE (w\<lparr>GetRepoByName := reg1\<rparr>) env f args d =
           RunE (w\<lparr>GetRepoByName := reg2\<rparr>) env f args d"
    by (simp only: RunE_download [OF assms] download_registry_update)
  have b: "cm_Username c = resolve (flag_username f) (env ''HELM_REPO_USERNAME'') \<and>
            cm_Password c = resolve (flag_password f) (env ''HELM_REPO_PASSWORD'') \<and>
            cm_AccessToken c = resolve (flag_access_token f) (env ''HELM_REPO_ACCESS_TOKEN'') \<and>
            cm_ContextPath c = resolve (flag_context_path f) (env ''HELM_REPO_CONTEXT_PATH'')"
    if "run_call (RunE w env f args d) = Some (c, fp)" for c fp
  proof -
    from that have "call (download w (setFieldsFromEnv env (newPushCmd f)) (args ! 3)) =
        Some (c, fp)"
      by (simp add: RunE_download [OF assms])
    from download_call_cases [OF this] show ?thesis
      by (auto simp: setFieldsFromEnv_username setFieldsFromEnv_password
          setFieldsFromEnv_accessToken setFieldsFromEnv_contextPath newPushCmd_def)
  qed
  from a b show ?thesis by blast
qed

text \<open>
  A registry that stores credentials for every name and an empty one give the same run; the
  request carries the flag's user name and the environment's password.
\<close>

theorem download_never_reads_registry_witness:
  "length sample_args = 4 \<and> HasPrefix (sample_args ! 3) ''cm://'' \<and>
   registry_with_credentials ''host'' \<noteq> registry_empty ''host'' \<and>
   RunE (sample_lib\<lparr>GetRepoByName := registry_with_credentials\<rparr>) sample_env sample_flags
      sample_args sample_disk =
   RunE (sample_lib\<lparr>GetRepoByName := registry_empty\<rparr>) sample_env sample_flags
      sample_args sample_disk \<and>
   run_call (RunE sample_lib sample_env sample_flags sample_args sample_disk) =
     Some (\<lparr>cm_URL = ''http://host/a/b'', cm_Username = ''alice'', cm_Password = ''s3cret'',
             cm_AccessToken = [], cm_ContextPath = []\<rparr>, ''foo-1.0.0.tgz'') \<and>
   resolve (flag_username sample_flags) (sample_env ''HELM_REPO_USERNAME'') = ''alice'' \<and>
   resolve (flag_password sample_flags) (sample_env ''HELM_REPO_PASSWORD'') = ''s3cret''"
proof -
  note inst = download_never_reads_registry [OF sample_args_download(1,2), where w = sample_lib
      and ?reg1.0 = registry_with_credentials and ?reg2.0 = registry_empty
      and env = sample_env and f = sample_flags and d = sample_disk]
  have a: "registry_with_credentials ''host'' \<noteq> registry_empty ''host''"
    by (simp add: registry_with_credentials_def registry_empty_def)
  have b: "resolve (flag_username sample_flags) (sample_env ''HELM_REPO_USERNAME'') = ''alice''"
    "resolve (flag_password sample_flags) (sample_env ''HELM_REPO_PASSWORD'') = ''s3cret''"
    using inst sample_run_call(1) by auto
  from inst a b sample_args_download(1,2) sample_run_call(1) show ?thesis
    by blast
qed

end
